theory Spec2Isabelle
  imports Complex_Main "HOL-Library.AList" "HOL-Library.Sublist"
begin

section \<open>Values, dictionaries and Python helpers\<close>

text \<open>
  Python values as they travel through \<open>client.py\<close> and \<open>server.py\<close>: the parameters
  put into a payload (\<open>Dict[str, Any]\<close>) and the decoded JSON bodies that come back.
  A dictionary is an association list in insertion order. Floating-point numbers are
  only carried, never computed with.
\<close>

datatype pyval =
    PNone
  | PBool bool
  | PInt int
  | PFloat real
  | PStr string
  | PList "pyval list"
  | PDict "(string \<times> pyval) list"

type_synonym dict = "(string \<times> pyval) list"

definition keys :: "dict \<Rightarrow> string set" where
  "keys d = fst ` set d"

text \<open>\<open>d.get(k)\<close>: the value stored under \<open>k\<close>, if any.\<close>

definition dict_get :: "dict \<Rightarrow> string \<Rightarrow> pyval option" where
  "dict_get d k = map_of d k"

text \<open>\<open>d.get(k, default)\<close>\<close>

definition dict_get_or :: "dict \<Rightarrow> string \<Rightarrow> pyval \<Rightarrow> pyval" where
  "dict_get_or d k dflt = (case dict_get d k of Some v \<Rightarrow> v | None \<Rightarrow> dflt)"

text \<open>\<open>s.lstrip(cs)\<close> and \<open>s.rstrip(cs)\<close>: drop every leading (trailing) character
  that occurs in \<open>cs\<close>.\<close>

definition lstrip :: "string \<Rightarrow> string \<Rightarrow> string" where
  "lstrip cs s = dropWhile (\<lambda>c. c \<in> set cs) s"

definition rstrip :: "string \<Rightarrow> string \<Rightarrow> string" where
  "rstrip cs s = rev (dropWhile (\<lambda>c. c \<in> set cs) (rev s))"


text \<open>Decimal rendering of an integer inside an f-string.\<close>

definition digit_char :: "nat \<Rightarrow> char" where
  "digit_char d = ''0123456789'' ! d"

function str_nat :: "nat \<Rightarrow> string" where
  "str_nat n = (if n < 10 then [digit_char n] else str_nat (n div 10) @ [digit_char (n mod 10)])"
  by pat_completeness auto
termination
  by (relation "measure id") auto

declare str_nat.simps [simp del]



section \<open>The transport adapter\<close>

text \<open>Exceptions that leave the client.\<close>

datatype error =
    CanvasAPIError int pyval
  | ValueError string
  | AttributeError
  | IndexError

text \<open>
  What the HTTP library hands back. A \<open>RequestException\<close> carries its string
  representation and possibly a response, of which the handler reads the status code
  and the decoded body (\<open>None\<close> when \<open>json()\<close> raises \<open>ValueError\<close>). A response that
  passed \<open>raise_for_status()\<close> has content or not, and its \<open>json()\<close> either decodes
  or raises the library's own decoding error, which is a \<open>RequestException\<close>.
\<close>

datatype err_response = ErrResponse (status_code: int) (err_json: "pyval option")

datatype request_exception =
  RequestException (exc_str: string) (exc_response: "err_response option")

datatype ok_response =
  OkResponse (content_nonempty: bool) (ok_json: "request_exception + pyval")

datatype net_outcome = Returned ok_response | Raised request_exception

datatype verb = GET | POST | PUT | DELETE

record wire_request =
  wverb :: verb
  wurl :: string
  wauth :: string
  wparams :: "dict option"
  wdata :: "dict option"

text \<open>
  The remote service: its answer to a request may depend on every request issued
  before. The state threaded through the operations is the log of requests issued.
\<close>

type_synonym server = "wire_request list \<Rightarrow> wire_request \<Rightarrow> net_outcome"

record client =
  api_url :: string
  api_token :: string

text \<open>\<open>CanvasClient.__init__\<close>\<close>

definition init_client :: "string \<Rightarrow> string \<Rightarrow> client" where
  "init_client url token = \<lparr>api_url = rstrip ''/'' url, api_token = token\<rparr>"

text \<open>The \<open>except requests.exceptions.RequestException\<close> block of \<open>_request\<close>.\<close>

definition handle_exception :: "request_exception \<Rightarrow> error" where
  "handle_exception e =
     (case exc_response e of
        None \<Rightarrow> CanvasAPIError 500 (PStr (exc_str e))
      | Some r \<Rightarrow>
          (case err_json r of
             None \<Rightarrow> CanvasAPIError (status_code r) (PStr (exc_str e))
           | Some (PDict error_data) \<Rightarrow>
               (case dict_get error_data ''errors'' of
                  Some (PDict errs) \<Rightarrow>
                    CanvasAPIError (status_code r)
                      (dict_get_or errs ''message'' (PStr (exc_str e)))
                | Some (PList (x # xs)) \<Rightarrow> CanvasAPIError (status_code r) x
                | _ \<Rightarrow>
                    CanvasAPIError (status_code r)
                      (dict_get_or error_data ''message'' (PStr (exc_str e))))
           | Some _ \<Rightarrow> AttributeError))"

text \<open>The URL of \<open>_request\<close>.\<close>

definition request_url :: "client \<Rightarrow> string \<Rightarrow> string" where
  "request_url cl endpoint = api_url cl @ ''/'' @ lstrip ''/'' endpoint"

text \<open>
  One session call with what follows it in the \<open>try\<close> block: \<open>raise_for_status()\<close>,
  the decoding of the body, and the handler for whatever was raised.
\<close>

definition send :: "server \<Rightarrow> client \<Rightarrow> verb \<Rightarrow> string \<Rightarrow> dict option \<Rightarrow> dict option \<Rightarrow>
    wire_request list \<Rightarrow> (error + pyval) \<times> wire_request list" where
  "send srv cl v url params data hist =
     (let req = \<lparr>wverb = v, wurl = url, wauth = ''Bearer '' @ api_token cl,
                 wparams = params, wdata = data\<rparr>
      in (case srv hist req of
            Raised e \<Rightarrow> Inl (handle_exception e)
          | Returned r \<Rightarrow>
              (if content_nonempty r
               then (case ok_json r of
                       Inl e \<Rightarrow> Inl (handle_exception e)
                     | Inr v \<Rightarrow> Inr v)
               else Inr (PDict [])),
          hist @ [req]))"

text \<open>\<open>CanvasClient._request\<close>\<close>

definition request :: "server \<Rightarrow> client \<Rightarrow> string \<Rightarrow> string \<Rightarrow> dict option \<Rightarrow> dict option \<Rightarrow>
    wire_request list \<Rightarrow> (error + pyval) \<times> wire_request list" where
  "request srv cl method endpoint params data hist =
     (let url = request_url cl endpoint
      in if method = ''GET'' then send srv cl GET url params None hist
         else if method = ''POST'' then send srv cl POST url params data hist
         else if method = ''PUT'' then send srv cl PUT url params data hist
         else if method = ''DELETE'' then send srv cl DELETE url params None hist
         else (Inl (ValueError (''Unsupported HTTP method: '' @ method)), hist))"

section \<open>Payload construction\<close>

text \<open>
  Each payload is built as in the source: a dictionary literal, then one guarded
  assignment after the other. The guards are the following.
\<close>

text \<open>\<open>if cond: data[k] = v\<close>\<close>

definition put_when :: "bool \<Rightarrow> string \<Rightarrow> pyval \<Rightarrow> dict \<Rightarrow> dict" where
  "put_when cond k v d = (if cond then AList.update k v d else d)"

text \<open>\<open>if x: data[k] = x\<close> for an optional string: neither \<open>None\<close> nor \<open>""\<close>.\<close>

fun put_if_truthy :: "string \<Rightarrow> string option \<Rightarrow> dict \<Rightarrow> dict" where
  "put_if_truthy k None d = d"
| "put_if_truthy k (Some s) d = put_when (s \<noteq> []) k (PStr s) d"

text \<open>\<open>if x is not None: data[k] = x\<close>\<close>

fun put_not_none :: "string \<Rightarrow> ('a \<Rightarrow> pyval) \<Rightarrow> 'a option \<Rightarrow> dict \<Rightarrow> dict" where
  "put_not_none k conv None d = d"
| "put_not_none k conv (Some x) d = AList.update k (conv x) d"

text \<open>\<open>if x is not None and cond: data[k] = x\<close>\<close>

definition put_not_none_and :: "bool \<Rightarrow> string \<Rightarrow> ('a \<Rightarrow> pyval) \<Rightarrow> 'a option \<Rightarrow> dict \<Rightarrow> dict" where
  "put_not_none_and cond k conv x d = (if cond then put_not_none k conv x d else d)"

text \<open>\<open>for i, module_id in enumerate(ids): data[f"{field}[{i}]"] = module_id\<close>,
  from index \<open>i\<close> on.\<close>

definition indexed_key :: "string \<Rightarrow> nat \<Rightarrow> string" where
  "indexed_key field i = field @ ''['' @ str_nat i @ '']''"

fun put_indexed :: "string \<Rightarrow> nat \<Rightarrow> string list \<Rightarrow> dict \<Rightarrow> dict" where
  "put_indexed field i [] d = d"
| "put_indexed field i (x # xs) d =
     put_indexed field (Suc i) xs (AList.update (indexed_key field i) (PStr x) d)"

text \<open>The prerequisite block of \<open>create_module\<close>: \<open>if prerequisite_module_ids:\<close>.\<close>

fun put_prerequisites_create :: "string list option \<Rightarrow> dict \<Rightarrow> dict" where
  "put_prerequisites_create None d = d"
| "put_prerequisites_create (Some ids) d =
     (if ids \<noteq> [] then put_indexed ''module[prerequisite_module_ids]'' 0 ids d else d)"

text \<open>The prerequisite block of \<open>update_module\<close>:
  \<open>if prerequisite_module_ids is not None:\<close> with its two branches.\<close>

fun put_prerequisites_update :: "string list option \<Rightarrow> dict \<Rightarrow> dict" where
  "put_prerequisites_update None d = d"
| "put_prerequisites_update (Some ids) d =
     (if ids = [] then AList.update ''module[prerequisite_module_ids][]'' (PStr []) d
      else put_indexed ''module[prerequisite_module_ids]'' 0 ids d)"

text \<open>The \<open>if completion_requirement:\<close> block shared by \<open>create_module_item\<close> and
  \<open>update_module_item\<close>.\<close>

fun put_completion_requirement :: "dict option \<Rightarrow> dict \<Rightarrow> dict" where
  "put_completion_requirement None d = d"
| "put_completion_requirement (Some c) d =
     (if c = [] then d
      else (let d1 = AList.update ''module_item[completion_requirement][type]''
                       (dict_get_or c ''type'' (PStr [])) d
            in (case dict_get c ''min_score'' of
                  Some m \<Rightarrow> AList.update ''module_item[completion_requirement][min_score]'' m d1
                | None \<Rightarrow> d1)))"

definition create_course_data :: "string \<Rightarrow> string option \<Rightarrow> string option \<Rightarrow> dict" where
  "create_course_data name course_code sis_course_id =
     (let data = [(''course[name]'', PStr name)];
          data = put_if_truthy ''course[course_code]'' course_code data;
          data = put_if_truthy ''course[sis_course_id]'' sis_course_id data
      in data)"

definition create_section_data :: "string \<Rightarrow> string option \<Rightarrow> dict" where
  "create_section_data section_name sis_section_id =
     (let data = [(''course_section[name]'', PStr section_name)];
          data = put_if_truthy ''course_section[sis_section_id]'' sis_section_id data
      in data)"

definition update_section_data :: "string option \<Rightarrow> dict" where
  "update_section_data section_name =
     (let data = [];
          data = put_if_truthy ''course_section[name]'' section_name data
      in data)"

definition create_module_data :: "string \<Rightarrow> int option \<Rightarrow> string option \<Rightarrow> bool option \<Rightarrow>
    string list option \<Rightarrow> bool option \<Rightarrow> dict" where
  "create_module_data name position unlock_at require_sequential_progress
       prerequisite_module_ids publish_final_grade =
     (let data = [(''module[name]'', PStr name)];
          data = put_not_none ''module[position]'' PInt position data;
          data = put_not_none ''module[unlock_at]'' PStr unlock_at data;
          data = put_not_none ''module[require_sequential_progress]'' PBool
                   require_sequential_progress data;
          data = put_prerequisites_create prerequisite_module_ids data;
          data = put_not_none ''module[publish_final_grade]'' PBool publish_final_grade data
      in data)"

definition update_module_data :: "string option \<Rightarrow> int option \<Rightarrow> string option \<Rightarrow> bool option \<Rightarrow>
    string list option \<Rightarrow> bool option \<Rightarrow> dict" where
  "update_module_data name position unlock_at require_sequential_progress
       prerequisite_module_ids publish_final_grade =
     (let data = [];
          data = put_not_none ''module[name]'' PStr name data;
          data = put_not_none ''module[position]'' PInt position data;
          data = put_not_none ''module[unlock_at]'' PStr unlock_at data;
          data = put_not_none ''module[require_sequential_progress]'' PBool
                   require_sequential_progress data;
          data = put_prerequisites_update prerequisite_module_ids data;
          data = put_not_none ''module[publish_final_grade]'' PBool publish_final_grade data
      in data)"

text \<open>
  \<open>title\<close> is a \<open>str\<close> by annotation; \<open>add_page_to_module\<close> passes whatever the
  fetched page holds under \<open>title\<close>, so the model takes any value.
\<close>

definition create_module_item_data :: "pyval \<Rightarrow> string \<Rightarrow> string \<Rightarrow> int option \<Rightarrow> int option \<Rightarrow>
    string option \<Rightarrow> string option \<Rightarrow> bool option \<Rightarrow> dict option \<Rightarrow> dict" where
  "create_module_item_data title ty content_id position indent page_url external_url new_tab
       completion_requirement =
     (let data = [(''module_item[title]'', title), (''module_item[type]'', PStr ty)];
          data = put_when (ty \<noteq> ''ExternalUrl'') ''module_item[content_id]'' (PStr content_id)
                   data;
          data = put_not_none ''module_item[position]'' PInt position data;
          data = put_not_none ''module_item[indent]'' PInt indent data;
          data = put_not_none_and (ty = ''Page'') ''module_item[page_url]'' PStr page_url data;
          data = put_not_none_and (ty = ''ExternalUrl'') ''module_item[external_url]'' PStr
                   external_url data;
          data = put_not_none ''module_item[new_tab]'' PBool new_tab data;
          data = put_completion_requirement completion_requirement data
      in data)"

definition update_module_item_data :: "string option \<Rightarrow> int option \<Rightarrow> int option \<Rightarrow>
    string option \<Rightarrow> bool option \<Rightarrow> dict option \<Rightarrow> dict" where
  "update_module_item_data title position indent external_url new_tab completion_requirement =
     (let data = [];
          data = put_not_none ''module_item[title]'' PStr title data;
          data = put_not_none ''module_item[position]'' PInt position data;
          data = put_not_none ''module_item[indent]'' PInt indent data;
          data = put_not_none ''module_item[external_url]'' PStr external_url data;
          data = put_not_none ''module_item[new_tab]'' PBool new_tab data;
          data = put_completion_requirement completion_requirement data
      in data)"

definition list_pages_params :: "string option \<Rightarrow> dict" where
  "list_pages_params search_term =
     (let params = [];
          params = put_if_truthy ''search_term'' search_term params
      in params)"


definition update_page_data :: "string option \<Rightarrow> string option \<Rightarrow> string option \<Rightarrow>
    bool option \<Rightarrow> bool option \<Rightarrow> dict" where
  "update_page_data title body editing_roles published front_page =
     (let data = [];
          data = put_not_none ''wiki_page[title]'' PStr title data;
          data = put_not_none ''wiki_page[body]'' PStr body data;
          data = put_not_none ''wiki_page[editing_roles]'' PStr editing_roles data;
          data = put_not_none ''wiki_page[published]'' PBool published data;
          data = put_not_none ''wiki_page[front_page]'' PBool front_page data
      in data)"

section \<open>The domain operations of the client\<close>

type_synonym 'a op = "wire_request list \<Rightarrow> (error + 'a) \<times> wire_request list"

definition get_courses :: "server \<Rightarrow> client \<Rightarrow> dict option \<Rightarrow> pyval op" where
  "get_courses srv cl params = request srv cl ''GET'' ''courses'' params None"

definition get_course :: "server \<Rightarrow> client \<Rightarrow> string \<Rightarrow> pyval op" where
  "get_course srv cl course_id = request srv cl ''GET'' (''courses/'' @ course_id) None None"

definition create_course :: "server \<Rightarrow> client \<Rightarrow> string \<Rightarrow> string \<Rightarrow> string option \<Rightarrow>
    string option \<Rightarrow> pyval op" where
  "create_course srv cl account_id name course_code sis_course_id =
     request srv cl ''POST'' (''accounts/'' @ account_id @ ''/courses'') None
       (Some (create_course_data name course_code sis_course_id))"

definition list_sections :: "server \<Rightarrow> client \<Rightarrow> string \<Rightarrow> pyval op" where
  "list_sections srv cl course_id =
     request srv cl ''GET'' (''courses/'' @ course_id @ ''/sections'') None None"

definition create_section :: "server \<Rightarrow> client \<Rightarrow> string \<Rightarrow> string \<Rightarrow> string option \<Rightarrow> pyval op" where
  "create_section srv cl course_id section_name sis_section_id =
     request srv cl ''POST'' (''courses/'' @ course_id @ ''/sections'') None
       (Some (create_section_data section_name sis_section_id))"

definition get_section :: "server \<Rightarrow> client \<Rightarrow> string \<Rightarrow> pyval op" where
  "get_section srv cl section_id = request srv cl ''GET'' (''sections/'' @ section_id) None None"

definition update_section :: "server \<Rightarrow> client \<Rightarrow> string \<Rightarrow> string option \<Rightarrow> pyval op" where
  "update_section srv cl section_id section_name =
     request srv cl ''PUT'' (''sections/'' @ section_id) None
       (Some (update_section_data section_name))"

definition delete_section :: "server \<Rightarrow> client \<Rightarrow> string \<Rightarrow> pyval op" where
  "delete_section srv cl section_id =
     request srv cl ''DELETE'' (''sections/'' @ section_id) None None"

definition cross_list_section :: "server \<Rightarrow> client \<Rightarrow> string \<Rightarrow> string \<Rightarrow> pyval op" where
  "cross_list_section srv cl section_id new_course_id =
     request srv cl ''POST'' (''sections/'' @ section_id @ ''/crosslist/'' @ new_course_id)
       None None"

definition list_modules :: "server \<Rightarrow> client \<Rightarrow> string \<Rightarrow> pyval op" where
  "list_modules srv cl course_id =
     request srv cl ''GET'' (''courses/'' @ course_id @ ''/modules'') None None"

definition get_module :: "server \<Rightarrow> client \<Rightarrow> string \<Rightarrow> string \<Rightarrow> pyval op" where
  "get_module srv cl course_id module_id =
     request srv cl ''GET'' (''courses/'' @ course_id @ ''/modules/'' @ module_id) None None"

definition create_module :: "server \<Rightarrow> client \<Rightarrow> string \<Rightarrow> string \<Rightarrow> int option \<Rightarrow> string option \<Rightarrow>
    bool option \<Rightarrow> string list option \<Rightarrow> bool option \<Rightarrow> pyval op" where
  "create_module srv cl course_id name position unlock_at require_sequential_progress
       prerequisite_module_ids publish_final_grade =
     request srv cl ''POST'' (''courses/'' @ course_id @ ''/modules'') None
       (Some (create_module_data name position unlock_at require_sequential_progress
                prerequisite_module_ids publish_final_grade))"

definition update_module :: "server \<Rightarrow> client \<Rightarrow> string \<Rightarrow> string \<Rightarrow> string option \<Rightarrow> int option \<Rightarrow>
    string option \<Rightarrow> bool option \<Rightarrow> string list option \<Rightarrow> bool option \<Rightarrow> pyval op" where
  "update_module srv cl course_id module_id name position unlock_at
       require_sequential_progress prerequisite_module_ids publish_final_grade =
     request srv cl ''PUT'' (''courses/'' @ course_id @ ''/modules/'' @ module_id) None
       (Some (update_module_data name position unlock_at require_sequential_progress
                prerequisite_module_ids publish_final_grade))"

definition delete_module :: "server \<Rightarrow> client \<Rightarrow> string \<Rightarrow> string \<Rightarrow> pyval op" where
  "delete_module srv cl course_id module_id =
     request srv cl ''DELETE'' (''courses/'' @ course_id @ ''/modules/'' @ module_id) None None"

definition list_module_items :: "server \<Rightarrow> client \<Rightarrow> string \<Rightarrow> string \<Rightarrow> pyval op" where
  "list_module_items srv cl course_id module_id =
     request srv cl ''GET'' (''courses/'' @ course_id @ ''/modules/'' @ module_id @ ''/items'')
       None None"

definition get_module_item :: "server \<Rightarrow> client \<Rightarrow> string \<Rightarrow> string \<Rightarrow> string \<Rightarrow> pyval op" where
  "get_module_item srv cl course_id module_id item_id =
     request srv cl ''GET''
       (''courses/'' @ course_id @ ''/modules/'' @ module_id @ ''/items/'' @ item_id) None None"

definition create_module_item :: "server \<Rightarrow> client \<Rightarrow> string \<Rightarrow> string \<Rightarrow> pyval \<Rightarrow> string \<Rightarrow>
    string \<Rightarrow> int option \<Rightarrow> int option \<Rightarrow> string option \<Rightarrow> string option \<Rightarrow> bool option \<Rightarrow>
    dict option \<Rightarrow> pyval op" where
  "create_module_item srv cl course_id module_id title ty content_id position indent page_url
       external_url new_tab completion_requirement =
     request srv cl ''POST'' (''courses/'' @ course_id @ ''/modules/'' @ module_id @ ''/items'')
       None
       (Some (create_module_item_data title ty content_id position indent page_url
                external_url new_tab completion_requirement))"

definition update_module_item :: "server \<Rightarrow> client \<Rightarrow> string \<Rightarrow> string \<Rightarrow> string \<Rightarrow>
    string option \<Rightarrow> int option \<Rightarrow> int option \<Rightarrow> string option \<Rightarrow> bool option \<Rightarrow>
    dict option \<Rightarrow> pyval op" where
  "update_module_item srv cl course_id module_id item_id title position indent external_url
       new_tab completion_requirement =
     request srv cl ''PUT''
       (''courses/'' @ course_id @ ''/modules/'' @ module_id @ ''/items/'' @ item_id) None
       (Some (update_module_item_data title position indent external_url new_tab
                completion_requirement))"

definition delete_module_item :: "server \<Rightarrow> client \<Rightarrow> string \<Rightarrow> string \<Rightarrow> string \<Rightarrow> pyval op" where
  "delete_module_item srv cl course_id module_id item_id =
     request srv cl ''DELETE''
       (''courses/'' @ course_id @ ''/modules/'' @ module_id @ ''/items/'' @ item_id) None None"

definition list_pages :: "server \<Rightarrow> client \<Rightarrow> string \<Rightarrow> string option \<Rightarrow> pyval op" where
  "list_pages srv cl course_id search_term =
     request srv cl ''GET'' (''courses/'' @ course_id @ ''/pages'')
       (Some (list_pages_params search_term)) None"

definition get_page :: "server \<Rightarrow> client \<Rightarrow> string \<Rightarrow> string \<Rightarrow> pyval op" where
  "get_page srv cl course_id page_url =
     request srv cl ''GET'' (''courses/'' @ course_id @ ''/pages/'' @ page_url) None None"


definition update_page :: "server \<Rightarrow> client \<Rightarrow> string \<Rightarrow> string \<Rightarrow> string option \<Rightarrow> string option \<Rightarrow>
    string option \<Rightarrow> bool option \<Rightarrow> bool option \<Rightarrow> pyval op" where
  "update_page srv cl course_id page_url title body editing_roles published front_page =
     request srv cl ''PUT'' (''courses/'' @ course_id @ ''/pages/'' @ page_url) None
       (Some (update_page_data title body editing_roles published front_page))"

definition delete_page :: "server \<Rightarrow> client \<Rightarrow> string \<Rightarrow> string \<Rightarrow> pyval op" where
  "delete_page srv cl course_id page_url =
     request srv cl ''DELETE'' (''courses/'' @ course_id @ ''/pages/'' @ page_url) None None"


section \<open>The tools of the server that do more than delegate\<close>


text \<open>\<open>server.create_module_item\<close>\<close>

definition server_create_module_item :: "server \<Rightarrow> client \<Rightarrow> string \<Rightarrow> string \<Rightarrow> string \<Rightarrow> string \<Rightarrow>
    string option \<Rightarrow> int option \<Rightarrow> int option \<Rightarrow> string option \<Rightarrow> string option \<Rightarrow> bool option \<Rightarrow>
    string option \<Rightarrow> real option \<Rightarrow> pyval op" where
  "server_create_module_item srv cl course_id module_id title ty content_id position indent
       page_url external_url new_tab completion_requirement_type min_score =
     (let completion_requirement =
            (case completion_requirement_type of
               None \<Rightarrow> None
             | Some t \<Rightarrow>
                 (if t = [] then None
                  else Some (case min_score of
                               None \<Rightarrow> [(''type'', PStr t)]
                             | Some m \<Rightarrow>
                                 (if t = ''min_score''
                                  then AList.update ''min_score'' (PFloat m) [(''type'', PStr t)]
                                  else [(''type'', PStr t)]))))
      in create_module_item srv cl course_id module_id (PStr title) ty
           (case content_id of None \<Rightarrow> [] | Some c \<Rightarrow> (if c \<noteq> [] then c else []))
           position indent page_url external_url new_tab completion_requirement)"


section \<open>Notation for the properties\<close>


section \<open>The error message as the specification words it\<close>

text \<open>
  The status and the decoded body a failure carries: 500 and no body when the
  exception has no response, no body either when the response does not decode.
\<close>

definition failure_status :: "request_exception \<Rightarrow> int" where
  "failure_status e = (case exc_response e of None \<Rightarrow> 500 | Some r \<Rightarrow> status_code r)"

definition failure_body :: "request_exception \<Rightarrow> pyval option" where
  "failure_body e = (case exc_response e of None \<Rightarrow> None | Some r \<Rightarrow> err_json r)"

text \<open>The three extraction strategies of the specification, each giving a message or
  nothing: the \<open>message\<close> of a mapping under \<open>errors\<close>, the first element of a non-empty
  sequence under \<open>errors\<close>, the top-level \<open>message\<close>.\<close>

fun errors_field :: "pyval \<Rightarrow> pyval option" where
  "errors_field (PDict d) = dict_get d ''errors''"
| "errors_field b = None"

fun errors_message :: "pyval \<Rightarrow> pyval option" where
  "errors_message b =
     (case errors_field b of Some (PDict errs) \<Rightarrow> dict_get errs ''message'' | _ \<Rightarrow> None)"

fun errors_first :: "pyval \<Rightarrow> pyval option" where
  "errors_first b = (case errors_field b of Some (PList (x # xs)) \<Rightarrow> Some x | _ \<Rightarrow> None)"

fun top_message :: "pyval \<Rightarrow> pyval option" where
  "top_message (PDict d) = dict_get d ''message''"
| "top_message b = None"

text \<open>The priority order as the specification states it: the first strategy that gives
  a message wins, the exception's text is the fallback.\<close>

fun spec_message :: "string \<Rightarrow> pyval option \<Rightarrow> pyval" where
  "spec_message exc None = PStr exc"
| "spec_message exc (Some b) =
     (case errors_message b of
        Some m \<Rightarrow> m
      | None \<Rightarrow>
          (case errors_first b of
             Some m \<Rightarrow> m
           | None \<Rightarrow> (case top_message b of Some m \<Rightarrow> m | None \<Rightarrow> PStr exc)))"

text \<open>The amended order: a mapping under \<open>errors\<close> decides alone, by its \<open>message\<close> or
  else by the exception's text; the other strategies are tried only when \<open>errors\<close> is
  not a mapping.\<close>

fun errors_is_mapping :: "pyval \<Rightarrow> bool" where
  "errors_is_mapping b = (case errors_field b of Some (PDict errs) \<Rightarrow> True | _ \<Rightarrow> False)"

fun amended_message :: "string \<Rightarrow> pyval option \<Rightarrow> pyval" where
  "amended_message exc None = PStr exc"
| "amended_message exc (Some b) =
     (if errors_is_mapping b
      then (case errors_message b of Some m \<Rightarrow> m | None \<Rightarrow> PStr exc)
      else (case errors_first b of
              Some m \<Rightarrow> m
            | None \<Rightarrow> (case top_message b of Some m \<Rightarrow> m | None \<Rightarrow> PStr exc)))"

fun is_mapping :: "pyval \<Rightarrow> bool" where
  "is_mapping (PDict d) = True"
| "is_mapping b = False"

section \<open>Facts about the request primitive\<close>

lemma request_get:
  "request srv cl ''GET'' ep ps d hist = send srv cl GET (request_url cl ep) ps None hist"
  by (simp add: request_def)

lemma request_post:
  "request srv cl ''POST'' ep ps d hist = send srv cl POST (request_url cl ep) ps d hist"
  by (simp add: request_def)

lemma request_put:
  "request srv cl ''PUT'' ep ps d hist = send srv cl PUT (request_url cl ep) ps d hist"
  by (simp add: request_def)

lemma request_delete:
  "request srv cl ''DELETE'' ep ps d hist = send srv cl DELETE (request_url cl ep) ps None hist"
  by (simp add: request_def)

lemma snd_send:
  "snd (send srv cl v url ps d hist) =
     hist @ [\<lparr>wverb = v, wurl = url, wauth = ''Bearer '' @ api_token cl,
              wparams = ps, wdata = d\<rparr>]"
  by (simp add: send_def Let_def)

section \<open>Unsupported methods\<close>

text \<open>
  Claim C9. A method string other than GET, POST, PUT and DELETE makes \<open>_request\<close> raise
  the invalid-method error (\<open>ValueError\<close>, which the handler for request exceptions does
  not catch), and the log of issued requests is unchanged: no network call is made.
\<close>

theorem request_rejects_unknown_method:
  assumes "method \<noteq> ''GET''" and "method \<noteq> ''POST''"
    and "method \<noteq> ''PUT''" and "method \<noteq> ''DELETE''"
  shows "request srv cl method endpoint params data hist =
           (Inl (ValueError (''Unsupported HTTP method: '' @ method)), hist)"
  using assms by (simp add: request_def)

theorem request_rejects_unknown_method_witness:
  "request (\<lambda>h r. Returned (OkResponse False (Inr PNone)))
      (init_client ''https://c.example/api/v1'' ''t'') ''PATCH'' ''courses'' None None [] =
     (Inl (ValueError ''Unsupported HTTP method: PATCH''), [])"
  using request_rejects_unknown_method [of "''PATCH''"
      "\<lambda>h r. Returned (OkResponse False (Inr PNone))"
      "init_client ''https://c.example/api/v1'' ''t''" "''courses''" None None "[]"]
  by simp

section \<open>Read operations\<close>

text \<open>
  Claim C7. Each read operation (\<open>get_courses\<close>, \<open>get_course\<close>, \<open>list_sections\<close>,
  \<open>list_modules\<close>, \<open>get_module\<close>, \<open>list_module_items\<close>, \<open>get_module_item\<close>,
  \<open>list_pages\<close>, \<open>get_page\<close>) extends the log of issued requests by exactly one
  request, and that request is a GET: whatever the service answers, no POST, PUT or
  DELETE is issued.
\<close>

theorem read_operations_issue_one_get:
  "snd (get_courses srv cl params hist) =
     hist @ [\<lparr>wverb = GET, wurl = request_url cl ''courses'',
              wauth = ''Bearer '' @ api_token cl, wparams = params, wdata = None\<rparr>]
   \<and> snd (get_course srv cl course_id hist) =
     hist @ [\<lparr>wverb = GET, wurl = request_url cl (''courses/'' @ course_id),
              wauth = ''Bearer '' @ api_token cl, wparams = None, wdata = None\<rparr>]
   \<and> snd (list_sections srv cl course_id hist) =
     hist @ [\<lparr>wverb = GET, wurl = request_url cl (''courses/'' @ course_id @ ''/sections''),
              wauth = ''Bearer '' @ api_token cl, wparams = None, wdata = None\<rparr>]
   \<and> snd (list_modules srv cl course_id hist) =
     hist @ [\<lparr>wverb = GET, wurl = request_url cl (''courses/'' @ course_id @ ''/modules''),
              wauth = ''Bearer '' @ api_token cl, wparams = None, wdata = None\<rparr>]
   \<and> snd (get_module srv cl course_id module_id hist) =
     hist @ [\<lparr>wverb = GET,
              wurl = request_url cl (''courses/'' @ course_id @ ''/modules/'' @ module_id),
              wauth = ''Bearer '' @ api_token cl, wparams = None, wdata = None\<rparr>]
   \<and> snd (list_module_items srv cl course_id module_id hist) =
     hist @ [\<lparr>wverb = GET,
              wurl = request_url cl
                (''courses/'' @ course_id @ ''/modules/'' @ module_id @ ''/items''),
              wauth = ''Bearer '' @ api_token cl, wparams = None, wdata = None\<rparr>]
   \<and> snd (get_module_item srv cl course_id module_id item_id hist) =
     hist @ [\<lparr>wverb = GET,
              wurl = request_url cl
                (''courses/'' @ course_id @ ''/modules/'' @ module_id @ ''/items/'' @ item_id),
              wauth = ''Bearer '' @ api_token cl, wparams = None, wdata = None\<rparr>]
   \<and> snd (list_pages srv cl course_id search_term hist) =
     hist @ [\<lparr>wverb = GET, wurl = request_url cl (''courses/'' @ course_id @ ''/pages''),
              wauth = ''Bearer '' @ api_token cl,
              wparams = Some (list_pages_params search_term), wdata = None\<rparr>]
   \<and> snd (get_page srv cl course_id page_url hist) =
     hist @ [\<lparr>wverb = GET,
              wurl = request_url cl (''courses/'' @ course_id @ ''/pages/'' @ page_url),
              wauth = ''Bearer '' @ api_token cl, wparams = None, wdata = None\<rparr>]"
  by (simp add: get_courses_def get_course_def list_sections_def list_modules_def
      get_module_def list_module_items_def get_module_item_def list_pages_def get_page_def
      request_get snd_send)

section \<open>Facts about payload construction\<close>

lemma mem_keys_Nil: "k' \<in> keys [] \<longleftrightarrow> False"
  by (simp add: keys_def)

lemma mem_keys_Cons: "k' \<in> keys ((k, v) # d) \<longleftrightarrow> k' = k \<or> k' \<in> keys d"
  by (auto simp: keys_def)

lemma mem_keys_update: "k' \<in> keys (AList.update k v d) \<longleftrightarrow> k' = k \<or> k' \<in> keys d"
  by (simp add: keys_def dom_update)

lemma mem_keys_put_when: "k' \<in> keys (put_when b k v d) \<longleftrightarrow> (b \<and> k' = k) \<or> k' \<in> keys d"
  by (simp add: put_when_def mem_keys_update)

lemma mem_keys_put_not_none:
  "k' \<in> keys (put_not_none k c x d) \<longleftrightarrow> (x \<noteq> None \<and> k' = k) \<or> k' \<in> keys d"
  by (cases x) (simp_all add: mem_keys_update)

lemma mem_keys_put_not_none_and:
  "k' \<in> keys (put_not_none_and b k c x d) \<longleftrightarrow> (b \<and> x \<noteq> None \<and> k' = k) \<or> k' \<in> keys d"
  by (simp add: put_not_none_and_def mem_keys_put_not_none)

lemma mem_keys_put_if_truthy:
  "k' \<in> keys (put_if_truthy k x d) \<longleftrightarrow> (x \<noteq> None \<and> x \<noteq> Some [] \<and> k' = k) \<or> k' \<in> keys d"
  by (cases x) (auto simp: mem_keys_put_when)

lemma mem_keys_put_completion_requirement:
  "k' \<in> keys (put_completion_requirement cr d) \<longleftrightarrow>
     k' \<in> keys d \<or>
     (cr \<noteq> None \<and> cr \<noteq> Some [] \<and>
       (k' = ''module_item[completion_requirement][type]'' \<or>
        (k' = ''module_item[completion_requirement][min_score]'' \<and>
         dict_get (the cr) ''min_score'' \<noteq> None)))"
  by (cases cr) (auto simp: Let_def mem_keys_update split: option.splits)

lemma dict_get_Nil: "dict_get [] k = None"
  by (simp add: dict_get_def)

lemma dict_get_Cons: "dict_get ((k, v) # d) k' = (if k' = k then Some v else dict_get d k')"
  by (simp add: dict_get_def)

lemma dict_get_update:
  "dict_get (AList.update k v d) k' = (if k' = k then Some v else dict_get d k')"
  by (simp add: dict_get_def update_conv')

lemma dict_get_put_when:
  "dict_get (put_when b k v d) k' = (if b \<and> k' = k then Some v else dict_get d k')"
  by (simp add: put_when_def dict_get_update)

lemma dict_get_put_not_none_other:
  "k' \<noteq> k \<Longrightarrow> dict_get (put_not_none k c x d) k' = dict_get d k'"
  by (cases x) (simp_all add: dict_get_update)

lemma dict_get_put_not_none_same:
  "dict_get (put_not_none k c x d) k = (case x of None \<Rightarrow> dict_get d k | Some y \<Rightarrow> Some (c y))"
  by (cases x) (simp_all add: dict_get_update)

lemma dict_get_put_not_none_and_other:
  "k' \<noteq> k \<Longrightarrow> dict_get (put_not_none_and b k c x d) k' = dict_get d k'"
  by (simp add: put_not_none_and_def dict_get_put_not_none_other)

lemma dict_get_put_not_none_and_same:
  "dict_get (put_not_none_and b k c x d) k =
     (if b then (case x of None \<Rightarrow> dict_get d k | Some y \<Rightarrow> Some (c y)) else dict_get d k)"
  by (simp add: put_not_none_and_def dict_get_put_not_none_same)

lemma dict_get_put_completion_requirement_other:
  "k \<noteq> ''module_item[completion_requirement][type]'' \<Longrightarrow>
   k \<noteq> ''module_item[completion_requirement][min_score]'' \<Longrightarrow>
   dict_get (put_completion_requirement cr d) k = dict_get d k"
  by (cases cr) (auto simp: Let_def dict_get_update split: option.splits)

lemmas mem_keys =
  mem_keys_Nil mem_keys_Cons mem_keys_update mem_keys_put_when mem_keys_put_not_none
  mem_keys_put_not_none_and mem_keys_put_if_truthy mem_keys_put_completion_requirement

lemmas dict_gets =
  dict_get_Nil dict_get_Cons dict_get_update dict_get_put_when dict_get_put_not_none_other
  dict_get_put_not_none_and_other dict_get_put_completion_requirement_other

lemma create_module_item_send:
  "create_module_item srv cl course_id module_id title ty content_id position indent page_url
       external_url new_tab cr hist =
     send srv cl POST
       (request_url cl (''courses/'' @ course_id @ ''/modules/'' @ module_id @ ''/items''))
       None
       (Some (create_module_item_data title ty content_id position indent page_url
                external_url new_tab cr))
       hist"
  by (simp add: create_module_item_def request_post)

lemma create_module_item_data_content_id:
  "dict_get (create_module_item_data title ty content_id position indent page_url
               external_url new_tab cr) ''module_item[content_id]'' =
     (if ty \<noteq> ''ExternalUrl'' then Some (PStr content_id) else None)"
  by (simp add: create_module_item_data_def Let_def dict_gets)

section \<open>Module items\<close>

text \<open>
  Claim C4. The payload of \<open>create_module_item\<close> has the key
  \<open>module_item[content_id]\<close> exactly when the item type is not \<open>ExternalUrl\<close>; when
  the key is there it holds the content identifier passed in; and this payload is the
  body of the one POST the operation issues.
\<close>

theorem content_id_iff_not_external_url:
  "(''module_item[content_id]'' \<in>
      keys (create_module_item_data title ty content_id position indent page_url
              external_url new_tab cr)
      \<longleftrightarrow> ty \<noteq> ''ExternalUrl'')
   \<and> dict_get (create_module_item_data title ty content_id position indent page_url
                  external_url new_tab cr) ''module_item[content_id]'' =
       (if ty \<noteq> ''ExternalUrl'' then Some (PStr content_id) else None)
   \<and> snd (create_module_item srv cl course_id module_id title ty content_id position indent
             page_url external_url new_tab cr hist) =
       hist @ [\<lparr>wverb = POST,
                wurl = request_url cl
                  (''courses/'' @ course_id @ ''/modules/'' @ module_id @ ''/items''),
                wauth = ''Bearer '' @ api_token cl, wparams = None,
                wdata = Some (create_module_item_data title ty content_id position indent
                                page_url external_url new_tab cr)\<rparr>]"
proof (intro conjI)
  show "''module_item[content_id]'' \<in>
      keys (create_module_item_data title ty content_id position indent page_url
              external_url new_tab cr)
      \<longleftrightarrow> ty \<noteq> ''ExternalUrl''"
    by (simp add: create_module_item_data_def Let_def mem_keys)
  show "dict_get (create_module_item_data title ty content_id position indent page_url
                  external_url new_tab cr) ''module_item[content_id]'' =
       (if ty \<noteq> ''ExternalUrl'' then Some (PStr content_id) else None)"
    by (rule create_module_item_data_content_id)
  show "snd (create_module_item srv cl course_id module_id title ty content_id position indent
             page_url external_url new_tab cr hist) =
       hist @ [\<lparr>wverb = POST,
                wurl = request_url cl
                  (''courses/'' @ course_id @ ''/modules/'' @ module_id @ ''/items''),
                wauth = ''Bearer '' @ api_token cl, wparams = None,
                wdata = Some (create_module_item_data title ty content_id position indent
                                page_url external_url new_tab cr)\<rparr>]"
    by (simp add: create_module_item_send snd_send)
qed

theorem content_id_iff_not_external_url_witness:
  "''module_item[content_id]'' \<notin>
      keys (create_module_item_data (PStr ''Docs'') ''ExternalUrl'' ''7'' None None None
              (Some ''https://e.example'') None None)
   \<and> ''module_item[content_id]'' \<in>
      keys (create_module_item_data (PStr ''Quiz 1'') ''Quiz'' ''7'' None None None None None
              None)"
  using content_id_iff_not_external_url [of "PStr ''Docs''" "''ExternalUrl''" "''7''" None None
      None "Some ''https://e.example''" None None]
    content_id_iff_not_external_url [of "PStr ''Quiz 1''" "''Quiz''" "''7''" None None
      None None None None]
  by simp

text \<open>
  Claim C5. In the payload of \<open>create_module_item\<close> the key \<open>module_item[page_url]\<close>
  is present exactly when a page URL was supplied and the type is \<open>Page\<close>, and
  \<open>module_item[external_url]\<close> exactly when an external URL was supplied and the type is
  \<open>ExternalUrl\<close>; a present key holds the supplied value. A URL supplied with another
  type is left out and the call goes on all the same: the operation is the one POST of
  that payload, with whatever result the service gives.
\<close>

theorem url_fields_follow_item_type:
  "(''module_item[page_url]'' \<in>
      keys (create_module_item_data title ty content_id position indent page_url
              external_url new_tab cr)
      \<longleftrightarrow> page_url \<noteq> None \<and> ty = ''Page'')
   \<and> (''module_item[external_url]'' \<in>
      keys (create_module_item_data title ty content_id position indent page_url
              external_url new_tab cr)
      \<longleftrightarrow> external_url \<noteq> None \<and> ty = ''ExternalUrl'')
   \<and> dict_get (create_module_item_data title ty content_id position indent page_url
                  external_url new_tab cr) ''module_item[page_url]'' =
       (if ty = ''Page'' then map_option PStr page_url else None)
   \<and> dict_get (create_module_item_data title ty content_id position indent page_url
                  external_url new_tab cr) ''module_item[external_url]'' =
       (if ty = ''ExternalUrl'' then map_option PStr external_url else None)
   \<and> create_module_item srv cl course_id module_id title ty content_id position indent
         page_url external_url new_tab cr hist =
       send srv cl POST
         (request_url cl (''courses/'' @ course_id @ ''/modules/'' @ module_id @ ''/items''))
         None
         (Some (create_module_item_data title ty content_id position indent page_url
                  external_url new_tab cr))
         hist"
proof (intro conjI)
  show "''module_item[page_url]'' \<in>
      keys (create_module_item_data title ty content_id position indent page_url
              external_url new_tab cr)
      \<longleftrightarrow> page_url \<noteq> None \<and> ty = ''Page''"
    by (auto simp add: create_module_item_data_def Let_def mem_keys)
  show "''module_item[external_url]'' \<in>
      keys (create_module_item_data title ty content_id position indent page_url
              external_url new_tab cr)
      \<longleftrightarrow> external_url \<noteq> None \<and> ty = ''ExternalUrl''"
    by (auto simp add: create_module_item_data_def Let_def mem_keys)
  show "dict_get (create_module_item_data title ty content_id position indent page_url
                  external_url new_tab cr) ''module_item[page_url]'' =
       (if ty = ''Page'' then map_option PStr page_url else None)"
    by (simp add: create_module_item_data_def Let_def dict_gets dict_get_put_not_none_and_same
        split: option.splits)
  show "dict_get (create_module_item_data title ty content_id position indent page_url
                  external_url new_tab cr) ''module_item[external_url]'' =
       (if ty = ''ExternalUrl'' then map_option PStr external_url else None)"
    by (simp add: create_module_item_data_def Let_def dict_gets dict_get_put_not_none_and_same
        split: option.splits)
  show "create_module_item srv cl course_id module_id title ty content_id position indent
         page_url external_url new_tab cr hist =
       send srv cl POST
         (request_url cl (''courses/'' @ course_id @ ''/modules/'' @ module_id @ ''/items''))
         None
         (Some (create_module_item_data title ty content_id position indent page_url
                  external_url new_tab cr))
         hist"
    by (rule create_module_item_send)
qed

theorem url_fields_follow_item_type_witness:
  "''module_item[page_url]'' \<notin>
      keys (create_module_item_data (PStr ''A'') ''Assignment'' ''7'' None None (Some ''intro'')
              (Some ''https://e.example'') None None)
   \<and> ''module_item[external_url]'' \<notin>
      keys (create_module_item_data (PStr ''A'') ''Assignment'' ''7'' None None (Some ''intro'')
              (Some ''https://e.example'') None None)
   \<and> dict_get (create_module_item_data (PStr ''P'') ''Page'' ''7'' None None (Some ''intro'')
                  (Some ''https://e.example'') None None) ''module_item[page_url]'' =
       Some (PStr ''intro'')
   \<and> dict_get (create_module_item_data (PStr ''P'') ''Page'' ''7'' None None (Some ''intro'')
                  (Some ''https://e.example'') None None) ''module_item[external_url]'' = None"
  using url_fields_follow_item_type [of "PStr ''A''" "''Assignment''" "''7''" None None
      "Some ''intro''" "Some ''https://e.example''" None None]
    url_fields_follow_item_type [of "PStr ''P''" "''Page''" "''7''" None None
      "Some ''intro''" "Some ''https://e.example''" None None]
  by simp

text \<open>
  Claim C10. The tool \<open>create_module_item\<close> of the server turns an omitted or empty
  content identifier into the empty string and passes it on: for a type other than
  \<open>ExternalUrl\<close> the operation issues one POST whose body holds
  \<open>module_item[content_id]\<close> mapped to the empty string, and its result is the result
  of that POST.
\<close>

theorem tool_sends_empty_content_id:
  assumes "content_id = None \<or> content_id = Some []" and "ty \<noteq> ''ExternalUrl''"
  shows "\<exists>payload.
           server_create_module_item srv cl course_id module_id title ty content_id position
               indent page_url external_url new_tab completion_requirement_type min_score hist =
             send srv cl POST
               (request_url cl
                  (''courses/'' @ course_id @ ''/modules/'' @ module_id @ ''/items''))
               None (Some payload) hist
           \<and> snd (server_create_module_item srv cl course_id module_id title ty content_id
                    position indent page_url external_url new_tab completion_requirement_type
                    min_score hist) =
             hist @ [\<lparr>wverb = POST,
                      wurl = request_url cl
                        (''courses/'' @ course_id @ ''/modules/'' @ module_id @ ''/items''),
                      wauth = ''Bearer '' @ api_token cl, wparams = None,
                      wdata = Some payload\<rparr>]
           \<and> dict_get payload ''module_item[content_id]'' = Some (PStr [])"
proof -
  define cr where "cr =
    (case completion_requirement_type of
       None \<Rightarrow> None
     | Some t \<Rightarrow>
         (if t = [] then None
          else Some (case min_score of
                       None \<Rightarrow> [(''type'', PStr t)]
                     | Some m \<Rightarrow>
                         (if t = ''min_score''
                          then AList.update ''min_score'' (PFloat m) [(''type'', PStr t)]
                          else [(''type'', PStr t)]))))"
  let ?payload = "create_module_item_data (PStr title) ty [] position indent page_url
                    external_url new_tab cr"
  have cid: "(case content_id of None \<Rightarrow> [] | Some c \<Rightarrow> (if c \<noteq> [] then c else [])) = []"
    using assms(1) by auto
  have eq: "server_create_module_item srv cl course_id module_id title ty content_id position
               indent page_url external_url new_tab completion_requirement_type min_score hist =
            create_module_item srv cl course_id module_id (PStr title) ty [] position indent
               page_url external_url new_tab cr hist"
    unfolding server_create_module_item_def Let_def cid cr_def by (rule refl)
  have val: "dict_get ?payload ''module_item[content_id]'' = Some (PStr [])"
    using assms(2) by (simp add: create_module_item_data_content_id)
  show ?thesis
    by (rule exI [of _ ?payload]) (simp add: eq create_module_item_send snd_send val)
qed

theorem tool_sends_empty_content_id_witness:
  "\<exists>payload.
     snd (server_create_module_item (\<lambda>h r. Returned (OkResponse False (Inr PNone)))
            (init_client ''https://c.example/api/v1'' ''t'') ''1'' ''2'' ''Quiz 1'' ''Quiz''
            None None None None None None None None []) =
       [\<lparr>wverb = POST, wurl = ''https://c.example/api/v1/courses/1/modules/2/items'',
         wauth = ''Bearer t'', wparams = None, wdata = Some payload\<rparr>]
     \<and> dict_get payload ''module_item[content_id]'' = Some (PStr [])"
proof -
  have a: "(None :: string option) = None \<or> (None :: string option) = Some []"
    by simp
  have b: "''Quiz'' \<noteq> ''ExternalUrl''"
    by simp
  obtain payload where
    "snd (server_create_module_item (\<lambda>h r. Returned (OkResponse False (Inr PNone)))
            (init_client ''https://c.example/api/v1'' ''t'') ''1'' ''2'' ''Quiz 1'' ''Quiz''
            None None None None None None None None []) =
       [] @ [\<lparr>wverb = POST,
               wurl = request_url (init_client ''https://c.example/api/v1'' ''t'')
                        (''courses/'' @ ''1'' @ ''/modules/'' @ ''2'' @ ''/items''),
               wauth = ''Bearer '' @ api_token (init_client ''https://c.example/api/v1'' ''t''),
               wparams = None, wdata = Some payload\<rparr>]"
    and "dict_get payload ''module_item[content_id]'' = Some (PStr [])"
    using tool_sends_empty_content_id [OF a b] by blast
  then show ?thesis
    by (intro exI [of _ payload])
      (simp add: request_url_def init_client_def rstrip_def lstrip_def)
qed

section \<open>The URL on the wire\<close>

lemma lstrip_replicate: "lstrip ''/'' (replicate n CHR ''/'' @ e) = lstrip ''/'' e"
  by (induction n) (simp_all add: lstrip_def)

lemma rstrip_replicate: "rstrip ''/'' (b @ replicate m CHR ''/'') = rstrip ''/'' b"
proof -
  have "dropWhile (\<lambda>c. c \<in> set ''/'') (replicate m CHR ''/'' @ rev b) =
          dropWhile (\<lambda>c. c \<in> set ''/'') (rev b)"
    by (induction m) simp_all
  then show ?thesis by (simp add: rstrip_def)
qed

lemma lstrip_no_leading: "\<not> prefix ''/'' (lstrip ''/'' e)"
proof
  assume "prefix ''/'' (lstrip ''/'' e)"
  then obtain zs where "dropWhile (\<lambda>c. c \<in> set ''/'') e = CHR ''/'' # zs"
    by (auto simp: lstrip_def prefix_def)
  then show False
    using hd_dropWhile [of "\<lambda>c. c \<in> set ''/''" e] by simp
qed

lemma rstrip_no_trailing: "\<not> suffix ''/'' (rstrip ''/'' b)"
proof
  assume "suffix ''/'' (rstrip ''/'' b)"
  then have "prefix ''/'' (dropWhile (\<lambda>c. c \<in> set ''/'') (rev b))"
    by (simp add: rstrip_def suffix_to_prefix)
  then obtain zs where "dropWhile (\<lambda>c. c \<in> set ''/'') (rev b) = CHR ''/'' # zs"
    by (auto simp: prefix_def)
  then show False
    using hd_dropWhile [of "\<lambda>c. c \<in> set ''/''" "rev b"] by simp
qed

lemma lstrip_keeps_trailing:
  assumes "\<exists>c. c \<in> set e \<and> c \<noteq> CHR ''/''"
  shows "lstrip ''/'' (e @ ''/'') = lstrip ''/'' e @ ''/''"
  using assms by (auto simp: lstrip_def)

text \<open>
  Claim C8, as stated, fails: a trailing slash on the endpoint stays in the URL, so
  \<open>courses/\<close> and \<open>courses\<close> give two different requests.
\<close>

theorem trailing_slash_changes_url:
  "request_url (init_client ''https://c.example/api/v1'' ''t'') ''courses/'' \<noteq>
   request_url (init_client ''https://c.example/api/v1'' ''t'') ''courses''"
  by (simp add: request_url_def init_client_def rstrip_def lstrip_def)

text \<open>
  Claim C8, amended. The URL of every request is the base URL without its trailing
  slashes, one slash, and the endpoint without its leading slashes; the left part does
  not end with a slash and the right part does not start with one, so exactly one slash
  joins them. Extra trailing slashes on the base URL and extra leading slashes on the
  endpoint make no difference. A trailing slash on an endpoint that has a character
  other than a slash is kept.
\<close>

theorem url_is_base_slash_endpoint:
  "request_url (init_client base token) endpoint =
     rstrip ''/'' base @ ''/'' @ lstrip ''/'' endpoint
   \<and> \<not> suffix ''/'' (rstrip ''/'' base)
   \<and> \<not> prefix ''/'' (lstrip ''/'' endpoint)
   \<and> request_url (init_client (base @ replicate m CHR ''/'') token)
         (replicate n CHR ''/'' @ endpoint) =
       request_url (init_client base token) endpoint
   \<and> ((\<exists>c. c \<in> set endpoint \<and> c \<noteq> CHR ''/'') \<longrightarrow>
        request_url cl (endpoint @ ''/'') = request_url cl endpoint @ ''/'')
   \<and> map wurl (snd (request srv cl ''GET'' endpoint params data hist)) =
       map wurl hist @ [request_url cl endpoint]
   \<and> map wurl (snd (request srv cl ''POST'' endpoint params data hist)) =
       map wurl hist @ [request_url cl endpoint]
   \<and> map wurl (snd (request srv cl ''PUT'' endpoint params data hist)) =
       map wurl hist @ [request_url cl endpoint]
   \<and> map wurl (snd (request srv cl ''DELETE'' endpoint params data hist)) =
       map wurl hist @ [request_url cl endpoint]"
proof (intro conjI impI)
  show "request_url (init_client base token) endpoint =
          rstrip ''/'' base @ ''/'' @ lstrip ''/'' endpoint"
    by (simp add: request_url_def init_client_def)
  show "\<not> suffix ''/'' (rstrip ''/'' base)"
    by (rule rstrip_no_trailing)
  show "\<not> prefix ''/'' (lstrip ''/'' endpoint)"
    by (rule lstrip_no_leading)
  show "request_url (init_client (base @ replicate m CHR ''/'') token)
          (replicate n CHR ''/'' @ endpoint) =
        request_url (init_client base token) endpoint"
    by (simp add: request_url_def init_client_def rstrip_replicate lstrip_replicate)
  show "request_url cl (endpoint @ ''/'') = request_url cl endpoint @ ''/''"
    if "\<exists>c. c \<in> set endpoint \<and> c \<noteq> CHR ''/''"
    using lstrip_keeps_trailing [OF that] by (simp add: request_url_def)
  show "map wurl (snd (request srv cl ''GET'' endpoint params data hist)) =
          map wurl hist @ [request_url cl endpoint]"
    by (simp add: request_get snd_send)
  show "map wurl (snd (request srv cl ''POST'' endpoint params data hist)) =
          map wurl hist @ [request_url cl endpoint]"
    by (simp add: request_post snd_send)
  show "map wurl (snd (request srv cl ''PUT'' endpoint params data hist)) =
          map wurl hist @ [request_url cl endpoint]"
    by (simp add: request_put snd_send)
  show "map wurl (snd (request srv cl ''DELETE'' endpoint params data hist)) =
          map wurl hist @ [request_url cl endpoint]"
    by (simp add: request_delete snd_send)
qed

theorem url_is_base_slash_endpoint_witness:
  "request_url (init_client ''https://c.example/api/v1//'' ''t'') ''///courses'' =
     request_url (init_client ''https://c.example/api/v1'' ''t'') ''courses''
   \<and> (\<exists>c. c \<in> set ''courses'' \<and> c \<noteq> CHR ''/'')
   \<and> request_url (init_client ''https://c.example/api/v1'' ''t'') (''courses'' @ ''/'') =
       request_url (init_client ''https://c.example/api/v1'' ''t'') ''courses'' @ ''/''"
proof -
  have h: "\<exists>c. c \<in> set ''courses'' \<and> c \<noteq> CHR ''/''"
    by (rule exI [of _ "CHR ''c''"]) simp
  have "request_url (init_client (''https://c.example/api/v1'' @ replicate 2 CHR ''/'') ''t'')
          (replicate 3 CHR ''/'' @ ''courses'') =
        request_url (init_client ''https://c.example/api/v1'' ''t'') ''courses''"
    using url_is_base_slash_endpoint [of "''https://c.example/api/v1''" "''t''" "''courses''" 2 3]
    by blast
  moreover have "request_url (init_client ''https://c.example/api/v1'' ''t'') (''courses'' @ ''/'') =
       request_url (init_client ''https://c.example/api/v1'' ''t'') ''courses'' @ ''/''"
    using url_is_base_slash_endpoint [of _ _ "''courses''" _ _
        "init_client ''https://c.example/api/v1'' ''t''"] h
    by blast
  ultimately show ?thesis
    using h by (simp add: numeral_2_eq_2 numeral_3_eq_3)
qed

section \<open>Failure mapping\<close>

lemma handle_exception_amended:
  assumes "case failure_body e of None \<Rightarrow> True | Some b \<Rightarrow> is_mapping b"
  shows "handle_exception e =
           CanvasAPIError (failure_status e) (amended_message (exc_str e) (failure_body e))"
proof (cases "exc_response e")
  case None
  then show ?thesis
    by (simp add: handle_exception_def failure_status_def failure_body_def)
next
  case (Some r)
  show ?thesis
  proof (cases "err_json r")
    case None
    with Some show ?thesis
      by (simp add: handle_exception_def failure_status_def failure_body_def)
  next
    case (Some b)
    with \<open>exc_response e = Some r\<close> assms obtain d where b: "b = PDict d"
      by (cases b) (simp_all add: failure_body_def)
    show ?thesis
      using \<open>exc_response e = Some r\<close> Some b
      by (simp add: handle_exception_def failure_status_def failure_body_def dict_get_or_def
          split: option.splits pyval.splits list.splits)
  qed
qed

lemma amended_message_is_spec_message:
  assumes "\<not> (errors_is_mapping b \<and> errors_message b = None)"
  shows "amended_message exc (Some b) = spec_message exc (Some b)"
  using assms by (auto split: option.splits pyval.splits list.splits)

lemma send_raised:
  assumes "srv hist \<lparr>wverb = v, wurl = url, wauth = ''Bearer '' @ api_token cl,
                     wparams = ps, wdata = d\<rparr> = Raised e"
  shows "send srv cl v url ps d hist =
           (Inl (handle_exception e),
            hist @ [\<lparr>wverb = v, wurl = url, wauth = ''Bearer '' @ api_token cl,
                     wparams = ps, wdata = d\<rparr>])"
  using assms by (simp add: send_def Let_def)

text \<open>
  Claim C2, as stated, fails: for the body \<open>{"errors": {}, "message": "top"}\<close> the
  stated order reaches the top-level message, while the handler stops at the mapping
  under \<open>errors\<close> and falls back to the exception's text.
\<close>

theorem errors_mapping_without_message_hides_top_message:
  "handle_exception
     (RequestException ''boom''
        (Some (ErrResponse 400
           (Some (PDict [(''errors'', PDict []), (''message'', PStr ''top'')]))))) =
     CanvasAPIError 400 (PStr ''boom'')
   \<and> spec_message ''boom''
       (Some (PDict [(''errors'', PDict []), (''message'', PStr ''top'')])) = PStr ''top''"
  by (simp add: handle_exception_def dict_get_def dict_get_or_def)

text \<open>
  Claim C2, amended. When the failure carries no response, a response that does not
  decode, or one that decodes to a mapping, the handler gives the structured error with
  the response's status (500 without a response) and this message: if \<open>errors\<close> is a
  mapping, its \<open>message\<close>, or the exception's text when it has none; else if \<open>errors\<close>
  is a non-empty sequence, its first element; else the top-level \<open>message\<close>; else the
  exception's text. Unless \<open>errors\<close> is a mapping without \<open>message\<close>, that is the
  message of the stated order. A request whose session call raises issues that one
  call and ends with the handler's error.
\<close>

theorem failure_becomes_structured_error:
  assumes "case failure_body e of None \<Rightarrow> True | Some b \<Rightarrow> is_mapping b"
  shows "handle_exception e =
           CanvasAPIError (failure_status e) (amended_message (exc_str e) (failure_body e))
    \<and> (exc_response e = None \<longrightarrow>
         handle_exception e = CanvasAPIError 500 (PStr (exc_str e)))
    \<and> ((\<forall>b. failure_body e = Some b \<longrightarrow>
             \<not> (errors_is_mapping b \<and> errors_message b = None)) \<longrightarrow>
         handle_exception e =
           CanvasAPIError (failure_status e) (spec_message (exc_str e) (failure_body e)))
    \<and> (srv hist \<lparr>wverb = v, wurl = url, wauth = ''Bearer '' @ api_token cl,
                   wparams = ps, wdata = d\<rparr> = Raised e \<longrightarrow>
         send srv cl v url ps d hist =
           (Inl (handle_exception e),
            hist @ [\<lparr>wverb = v, wurl = url, wauth = ''Bearer '' @ api_token cl,
                     wparams = ps, wdata = d\<rparr>]))"
proof (intro conjI impI)
  show main: "handle_exception e =
      CanvasAPIError (failure_status e) (amended_message (exc_str e) (failure_body e))"
    by (rule handle_exception_amended [OF assms])
  show "handle_exception e = CanvasAPIError 500 (PStr (exc_str e))"
    if "exc_response e = None"
    using that by (simp add: handle_exception_def)
  show "handle_exception e =
      CanvasAPIError (failure_status e) (spec_message (exc_str e) (failure_body e))"
    if h: "\<forall>b. failure_body e = Some b \<longrightarrow>
             \<not> (errors_is_mapping b \<and> errors_message b = None)"
  proof (cases "failure_body e")
    case None
    with main show ?thesis by simp
  next
    case (Some b)
    with h have "\<not> (errors_is_mapping b \<and> errors_message b = None)"
      by blast
    then have "amended_message (exc_str e) (Some b) = spec_message (exc_str e) (Some b)"
      by (rule amended_message_is_spec_message)
    with main Some show ?thesis by simp
  qed
  show "send srv cl v url ps d hist =
      (Inl (handle_exception e),
       hist @ [\<lparr>wverb = v, wurl = url, wauth = ''Bearer '' @ api_token cl,
                wparams = ps, wdata = d\<rparr>])"
    if "srv hist \<lparr>wverb = v, wurl = url, wauth = ''Bearer '' @ api_token cl,
                  wparams = ps, wdata = d\<rparr> = Raised e"
    using that by (rule send_raised)
qed

theorem failure_becomes_structured_error_witness:
  "handle_exception
     (RequestException ''401 Client Error''
        (Some (ErrResponse 401
           (Some (PDict [(''errors'', PDict [(''message'', PStr ''Unauthorized'')])]))))) =
     CanvasAPIError 401 (PStr ''Unauthorized'')
   \<and> handle_exception
     (RequestException ''400 Client Error''
        (Some (ErrResponse 400 (Some (PDict [(''errors'', PList [PStr ''bad request''])]))))) =
     CanvasAPIError 400 (PStr ''bad request'')
   \<and> handle_exception (RequestException ''connection refused'' None) =
     CanvasAPIError 500 (PStr ''connection refused'')"
proof -
  let ?e1 = "RequestException ''401 Client Error''
        (Some (ErrResponse 401
           (Some (PDict [(''errors'', PDict [(''message'', PStr ''Unauthorized'')])]))))"
  let ?e2 = "RequestException ''400 Client Error''
        (Some (ErrResponse 400 (Some (PDict [(''errors'', PList [PStr ''bad request''])]))))"
  let ?e3 = "RequestException ''connection refused'' None"
  have h1: "case failure_body ?e1 of None \<Rightarrow> True | Some b \<Rightarrow> is_mapping b"
    by (simp add: failure_body_def)
  have h2: "case failure_body ?e2 of None \<Rightarrow> True | Some b \<Rightarrow> is_mapping b"
    by (simp add: failure_body_def)
  have h3: "case failure_body ?e3 of None \<Rightarrow> True | Some b \<Rightarrow> is_mapping b"
    by (simp add: failure_body_def)
  have "handle_exception ?e1 =
      CanvasAPIError (failure_status ?e1) (spec_message (exc_str ?e1) (failure_body ?e1))"
    using failure_becomes_structured_error [OF h1, THEN conjunct2, THEN conjunct2, THEN conjunct1]
    by (simp add: failure_body_def dict_get_def)
  moreover have "handle_exception ?e2 =
      CanvasAPIError (failure_status ?e2) (spec_message (exc_str ?e2) (failure_body ?e2))"
    using failure_becomes_structured_error [OF h2, THEN conjunct2, THEN conjunct2, THEN conjunct1]
    by (simp add: failure_body_def dict_get_def)
  moreover have "handle_exception ?e3 = CanvasAPIError 500 (PStr (exc_str ?e3))"
    using failure_becomes_structured_error [OF h3, THEN conjunct2, THEN conjunct1] by simp
  ultimately show ?thesis
    by (simp add: failure_body_def failure_status_def dict_get_def dict_get_or_def)
qed

section \<open>Create a page and add it to a module\<close>


















section \<open>Prerequisite lists\<close>

lemma digit_char_code:
  assumes "d < 10"
  shows "(of_char (digit_char d) :: nat) = 48 + d"
proof -
  from assms have "d = 0 \<or> d = 1 \<or> d = 2 \<or> d = 3 \<or> d = 4 \<or> d = 5 \<or> d = 6
      \<or> d = 7 \<or> d = 8 \<or> d = 9"
    by arith
  then show ?thesis
    by (elim disjE) (simp_all add: digit_char_def)
qed

lemma digit_char_inj:
  assumes "a < 10" and "b < 10" and "digit_char a = digit_char b"
  shows "a = b"
proof -
  have "(of_char (digit_char a) :: nat) = of_char (digit_char b)"
    by (simp only: assms(3))
  then have "48 + a = 48 + b"
    by (simp only: digit_char_code [OF assms(1)] digit_char_code [OF assms(2)])
  then show ?thesis by simp
qed

lemma str_nat_nonempty: "str_nat n \<noteq> []"
  by (subst str_nat.simps) simp

lemma str_nat_inj: "str_nat a = str_nat b \<Longrightarrow> a = b"
proof (induction a arbitrary: b rule: str_nat.induct)
  case (1 n)
  show ?case
  proof (cases "n < 10")
    case True
    note n = this
    show ?thesis
    proof (cases "b < 10")
      case True
      with n "1.prems" show ?thesis
        by (simp add: str_nat.simps [of n] str_nat.simps [of b] digit_char_inj)
    next
      case False
      with n "1.prems" have "str_nat (b div 10) = []"
        by (simp add: str_nat.simps [of n] str_nat.simps [of b])
      then show ?thesis by (simp add: str_nat_nonempty)
    qed
  next
    case False
    note n = this
    show ?thesis
    proof (cases "b < 10")
      case True
      with n "1.prems" have "str_nat (n div 10) = []"
        by (simp add: str_nat.simps [of n] str_nat.simps [of b])
      then show ?thesis by (simp add: str_nat_nonempty)
    next
      case False
      with n "1.prems" have eq: "str_nat (n div 10) = str_nat (b div 10)"
        and d: "digit_char (n mod 10) = digit_char (b mod 10)"
        by (simp_all add: str_nat.simps [of n] str_nat.simps [of b])
      from "1.IH" [OF n eq] have "n div 10 = b div 10" .
      moreover from d have "n mod 10 = b mod 10"
        by (intro digit_char_inj) simp_all
      ultimately show ?thesis
        by (metis div_mult_mod_eq)
    qed
  qed
qed

lemma indexed_key_inj: "indexed_key f a = indexed_key f b \<longleftrightarrow> a = b"
  by (auto simp: indexed_key_def dest: str_nat_inj)

lemma indexed_range_Cons:
  "(\<exists>j. i \<le> j \<and> j < i + length (x # xs) \<and> k = indexed_key f j) \<longleftrightarrow>
     k = indexed_key f i \<or> (\<exists>j. Suc i \<le> j \<and> j < Suc i + length xs \<and> k = indexed_key f j)"
  (is "?L \<longleftrightarrow> ?R")
proof
  assume ?L
  then obtain j where j: "i \<le> j" "j < i + length (x # xs)" "k = indexed_key f j"
    by blast
  show ?R
  proof (cases "j = i")
    case True
    with j show ?thesis by simp
  next
    case False
    with j have "Suc i \<le> j" and "j < Suc i + length xs"
      by simp_all
    with j(3) show ?thesis by blast
  qed
next
  assume ?R
  then show ?L
  proof
    assume "k = indexed_key f i"
    then show ?L by (intro exI [of _ i]) simp
  next
    assume "\<exists>j. Suc i \<le> j \<and> j < Suc i + length xs \<and> k = indexed_key f j"
    then obtain j where "Suc i \<le> j" "j < Suc i + length xs" "k = indexed_key f j"
      by blast
    then show ?L by (intro exI [of _ j]) simp
  qed
qed

lemma mem_keys_put_indexed:
  "k \<in> keys (put_indexed f i xs d) \<longleftrightarrow>
     k \<in> keys d \<or> (\<exists>j. i \<le> j \<and> j < i + length xs \<and> k = indexed_key f j)"
proof (induction xs arbitrary: i d)
  case Nil
  show ?case by auto
next
  case (Cons x xs)
  show ?case
    unfolding indexed_range_Cons
    by (simp add: Cons.IH mem_keys_update disj_commute disj_left_commute)
qed

lemma dict_get_put_indexed_other:
  "(\<And>j. k \<noteq> indexed_key f j) \<Longrightarrow> dict_get (put_indexed f i xs d) k = dict_get d k"
  by (induction xs arbitrary: i d) (simp_all add: dict_get_update)

lemma dict_get_put_indexed_before:
  "j < i \<Longrightarrow> dict_get (put_indexed f i xs d) (indexed_key f j) = dict_get d (indexed_key f j)"
  by (induction xs arbitrary: i d) (simp_all add: dict_get_update indexed_key_inj)

lemma dict_get_put_indexed:
  "j < length xs \<Longrightarrow>
   dict_get (put_indexed f i xs d) (indexed_key f (i + j)) = Some (PStr (xs ! j))"
proof (induction xs arbitrary: i j d)
  case Nil
  then show ?case by simp
next
  case (Cons x xs)
  show ?case
  proof (cases j)
    case 0
    then show ?thesis
      by (simp add: dict_get_put_indexed_before dict_get_update)
  next
    case (Suc j')
    with Cons.prems have "j' < length xs" by simp
    from Cons.IH [OF this, of "Suc i"] Suc show ?thesis by simp
  qed
qed


lemma prefix_indexed_key: "prefix f (indexed_key f i)"
  by (simp add: indexed_key_def)

lemma mem_keys_put_prerequisites_create:
  "k \<in> keys (put_prerequisites_create ids d) \<longleftrightarrow>
     k \<in> keys d \<or>
     (\<exists>xs. ids = Some xs \<and>
        (\<exists>j. j < length xs \<and> k = indexed_key ''module[prerequisite_module_ids]'' j))"
  by (cases ids) (auto simp: mem_keys_put_indexed)

lemma mem_keys_put_prerequisites_update:
  "k \<in> keys (put_prerequisites_update ids d) \<longleftrightarrow>
     k \<in> keys d \<or> (ids = Some [] \<and> k = ''module[prerequisite_module_ids][]'') \<or>
     (\<exists>xs. ids = Some xs \<and>
        (\<exists>j. j < length xs \<and> k = indexed_key ''module[prerequisite_module_ids]'' j))"
  by (cases ids) (auto simp: mem_keys_put_indexed mem_keys_update)

lemma sentinel_not_indexed:
  "''module[prerequisite_module_ids][]'' \<noteq> indexed_key ''module[prerequisite_module_ids]'' j"
  by (simp add: indexed_key_def str_nat_nonempty)

lemma mem_keys_create_module_data:
  "k \<in> keys (create_module_data name position unlock_at rsp ids pfg) \<longleftrightarrow>
     (pfg \<noteq> None \<and> k = ''module[publish_final_grade]'') \<or>
     (rsp \<noteq> None \<and> k = ''module[require_sequential_progress]'') \<or>
     (unlock_at \<noteq> None \<and> k = ''module[unlock_at]'') \<or>
     (position \<noteq> None \<and> k = ''module[position]'') \<or>
     k = ''module[name]'' \<or>
     (\<exists>xs. ids = Some xs \<and>
        (\<exists>j. j < length xs \<and> k = indexed_key ''module[prerequisite_module_ids]'' j))"
  by (simp add: create_module_data_def Let_def mem_keys mem_keys_put_prerequisites_create
      del: put_prerequisites_create.simps)

lemma mem_keys_update_module_data:
  "k \<in> keys (update_module_data name position unlock_at rsp ids pfg) \<longleftrightarrow>
     (pfg \<noteq> None \<and> k = ''module[publish_final_grade]'') \<or>
     (rsp \<noteq> None \<and> k = ''module[require_sequential_progress]'') \<or>
     (unlock_at \<noteq> None \<and> k = ''module[unlock_at]'') \<or>
     (position \<noteq> None \<and> k = ''module[position]'') \<or>
     (name \<noteq> None \<and> k = ''module[name]'') \<or>
     (ids = Some [] \<and> k = ''module[prerequisite_module_ids][]'') \<or>
     (\<exists>xs. ids = Some xs \<and>
        (\<exists>j. j < length xs \<and> k = indexed_key ''module[prerequisite_module_ids]'' j))"
  by (simp add: update_module_data_def Let_def mem_keys mem_keys_put_prerequisites_update
      del: put_prerequisites_update.simps)

lemma create_module_prerequisite_keys:
  "{k \<in> keys (create_module_data name position unlock_at rsp ids pfg).
      prefix ''module[prerequisite_module_ids]'' k} =
   (case ids of None \<Rightarrow> {}
    | Some xs \<Rightarrow> indexed_key ''module[prerequisite_module_ids]'' ` {..<length xs})"
  by (auto simp: mem_keys_create_module_data prefix_indexed_key split: option.splits)

lemma update_module_prerequisite_keys:
  "{k \<in> keys (update_module_data name position unlock_at rsp ids pfg).
      prefix ''module[prerequisite_module_ids]'' k} =
   (case ids of None \<Rightarrow> {}
    | Some xs \<Rightarrow>
        if xs = [] then {''module[prerequisite_module_ids][]''}
        else indexed_key ''module[prerequisite_module_ids]'' ` {..<length xs})"
  by (auto simp: mem_keys_update_module_data prefix_indexed_key split: option.splits)

lemma indexed_not_publish:
  "indexed_key ''module[prerequisite_module_ids]'' j \<noteq> ''module[publish_final_grade]''"
  by (simp add: indexed_key_def)

lemma create_module_prerequisite_value:
  assumes "i < length ids"
  shows "dict_get (create_module_data name position unlock_at rsp (Some ids) pfg)
           (indexed_key ''module[prerequisite_module_ids]'' i) = Some (PStr (ids ! i))"
proof -
  from assms have "ids \<noteq> []" by auto
  then show ?thesis
    using dict_get_put_indexed [OF assms, of "''module[prerequisite_module_ids]''" 0]
    by (simp add: create_module_data_def Let_def dict_get_put_not_none_other indexed_not_publish
        del: put_indexed.simps)
qed

lemma update_module_prerequisite_value:
  assumes "i < length ids"
  shows "dict_get (update_module_data name position unlock_at rsp (Some ids) pfg)
           (indexed_key ''module[prerequisite_module_ids]'' i) = Some (PStr (ids ! i))"
proof -
  from assms have "ids \<noteq> []" by auto
  then show ?thesis
    using dict_get_put_indexed [OF assms, of "''module[prerequisite_module_ids]''" 0]
    by (simp add: update_module_data_def Let_def dict_get_put_not_none_other indexed_not_publish
        del: put_indexed.simps)
qed

lemma update_module_sentinel_value:
  "dict_get (update_module_data name position unlock_at rsp (Some []) pfg)
     ''module[prerequisite_module_ids][]'' = Some (PStr [])"
  by (simp add: update_module_data_def Let_def dict_get_put_not_none_other dict_get_update)

text \<open>
  Claim C6, as stated, fails for \<open>create_module\<close>: an explicitly supplied empty list
  leaves no trace in its payload, the sentinel key is not emitted.
\<close>

theorem create_module_drops_empty_list:
  "create_module_data ''M'' None None None (Some []) None = [(''module[name]'', PStr ''M'')]
   \<and> ''module[prerequisite_module_ids][]'' \<notin>
       keys (create_module_data ''M'' None None None (Some []) None)"
  by (simp add: create_module_data_def Let_def keys_def)

text \<open>
  Claim C6, amended. For a non-empty list of \<open>n\<close> prerequisite identifiers, the keys of
  the payload of \<open>create_module\<close> and of \<open>update_module\<close> that start with
  \<open>module[prerequisite_module_ids]\<close> are exactly the indexed keys \<open>field[0]\<close> to
  \<open>field[n-1]\<close>, the one with index \<open>i\<close> holding the \<open>i\<close>-th identifier; the bare
  field name is never a key. For an explicitly supplied empty list, \<open>update_module\<close>
  emits the sentinel key \<open>field[]\<close> mapped to the empty string and nothing else under
  that field, and \<open>create_module\<close> emits no key under that field.
\<close>

theorem prerequisites_are_indexed:
  "(ids \<noteq> [] \<longrightarrow>
      {k \<in> keys (create_module_data name position unlock_at rsp (Some ids) pfg).
         prefix ''module[prerequisite_module_ids]'' k} =
        indexed_key ''module[prerequisite_module_ids]'' ` {..<length ids}
      \<and> {k \<in> keys (update_module_data new_name position unlock_at rsp (Some ids) pfg).
           prefix ''module[prerequisite_module_ids]'' k} =
          indexed_key ''module[prerequisite_module_ids]'' ` {..<length ids})
   \<and> (i < length ids \<longrightarrow>
        dict_get (create_module_data name position unlock_at rsp (Some ids) pfg)
          (indexed_key ''module[prerequisite_module_ids]'' i) = Some (PStr (ids ! i))
        \<and> dict_get (update_module_data new_name position unlock_at rsp (Some ids) pfg)
            (indexed_key ''module[prerequisite_module_ids]'' i) = Some (PStr (ids ! i)))
   \<and> indexed_key ''module[prerequisite_module_ids]'' i =
       ''module[prerequisite_module_ids]['' @ str_nat i @ '']''
   \<and> ''module[prerequisite_module_ids]'' \<notin>
       keys (create_module_data name position unlock_at rsp opt_ids pfg)
   \<and> ''module[prerequisite_module_ids]'' \<notin>
       keys (update_module_data new_name position unlock_at rsp opt_ids pfg)
   \<and> {k \<in> keys (update_module_data new_name position unlock_at rsp (Some []) pfg).
        prefix ''module[prerequisite_module_ids]'' k} = {''module[prerequisite_module_ids][]''}
   \<and> dict_get (update_module_data new_name position unlock_at rsp (Some []) pfg)
       ''module[prerequisite_module_ids][]'' = Some (PStr [])
   \<and> {k \<in> keys (create_module_data name position unlock_at rsp (Some []) pfg).
        prefix ''module[prerequisite_module_ids]'' k} = {}"
proof (intro conjI impI)
  show "{k \<in> keys (create_module_data name position unlock_at rsp (Some ids) pfg).
         prefix ''module[prerequisite_module_ids]'' k} =
        indexed_key ''module[prerequisite_module_ids]'' ` {..<length ids}"
    by (simp add: create_module_prerequisite_keys)
  show "{k \<in> keys (update_module_data new_name position unlock_at rsp (Some ids) pfg).
           prefix ''module[prerequisite_module_ids]'' k} =
          indexed_key ''module[prerequisite_module_ids]'' ` {..<length ids}"
    if "ids \<noteq> []"
    using that by (simp add: update_module_prerequisite_keys)
  show "dict_get (create_module_data name position unlock_at rsp (Some ids) pfg)
          (indexed_key ''module[prerequisite_module_ids]'' i) = Some (PStr (ids ! i))"
    if "i < length ids"
    using that by (rule create_module_prerequisite_value)
  show "dict_get (update_module_data new_name position unlock_at rsp (Some ids) pfg)
            (indexed_key ''module[prerequisite_module_ids]'' i) = Some (PStr (ids ! i))"
    if "i < length ids"
    using that by (rule update_module_prerequisite_value)
  show "indexed_key ''module[prerequisite_module_ids]'' i =
       ''module[prerequisite_module_ids]['' @ str_nat i @ '']''"
    by (simp add: indexed_key_def)
  show "''module[prerequisite_module_ids]'' \<notin>
       keys (create_module_data name position unlock_at rsp opt_ids pfg)"
    by (simp add: mem_keys_create_module_data indexed_key_def)
  show "''module[prerequisite_module_ids]'' \<notin>
       keys (update_module_data new_name position unlock_at rsp opt_ids pfg)"
    by (simp add: mem_keys_update_module_data indexed_key_def)
  show "{k \<in> keys (update_module_data new_name position unlock_at rsp (Some []) pfg).
        prefix ''module[prerequisite_module_ids]'' k} = {''module[prerequisite_module_ids][]''}"
    by (simp add: update_module_prerequisite_keys)
  show "dict_get (update_module_data new_name position unlock_at rsp (Some []) pfg)
       ''module[prerequisite_module_ids][]'' = Some (PStr [])"
    by (rule update_module_sentinel_value)
  show "{k \<in> keys (create_module_data name position unlock_at rsp (Some []) pfg).
        prefix ''module[prerequisite_module_ids]'' k} = {}"
    by (simp add: create_module_prerequisite_keys)
qed

theorem prerequisites_are_indexed_witness:
  "{k \<in> keys (create_module_data ''M'' None None None (Some [''10'', ''20'']) None).
      prefix ''module[prerequisite_module_ids]'' k} =
     {''module[prerequisite_module_ids][0]'', ''module[prerequisite_module_ids][1]''}
   \<and> dict_get (update_module_data None None None None (Some [''10'', ''20'']) None)
       ''module[prerequisite_module_ids][1]'' = Some (PStr ''20'')"
proof -
  have ne: "[''10'', ''20''] \<noteq> []"
    by simp
  have lt: "(1 :: nat) < length [''10'', ''20'']"
    by simp
  note t = prerequisites_are_indexed [where ids = "[''10'', ''20'']" and i = 1
      and name = "''M''" and new_name = None and position = None and unlock_at = None
      and rsp = None and pfg = None]
  have k0: "indexed_key ''module[prerequisite_module_ids]'' 0 =
      ''module[prerequisite_module_ids][0]''"
    by (simp add: indexed_key_def str_nat.simps digit_char_def)
  have k1: "indexed_key ''module[prerequisite_module_ids]'' (Suc 0) =
      ''module[prerequisite_module_ids][1]''"
    by (simp add: indexed_key_def str_nat.simps digit_char_def)
  from t ne
  have "{k \<in> keys (create_module_data ''M'' None None None (Some [''10'', ''20'']) None).
          prefix ''module[prerequisite_module_ids]'' k} =
        indexed_key ''module[prerequisite_module_ids]'' ` {..<length [''10'', ''20'']}"
    by blast
  moreover from t lt
  have "dict_get (update_module_data None None None None (Some [''10'', ''20'']) None)
          (indexed_key ''module[prerequisite_module_ids]'' 1) =
        Some (PStr ([''10'', ''20''] ! 1))"
    by blast
  ultimately show ?thesis
    using k0 k1 by (simp add: lessThan_Suc insert_commute)
qed

section \<open>Optional parameters\<close>


















end
